theory Spec2Isabelle
  imports Main
begin

section \<open>Python values and exceptions\<close>

text \<open>
  The values a caller can hand to the store. \<open>PBytes\<close> stands for the objects that
  \<^verbatim>\<open>json.dumps\<close> refuses (bytes, sets, arbitrary instances). A \<open>char\<close> of a \<open>PStr\<close> is
  one code point in the range 0 to 255; floats are outside the model. A \<open>PDict\<close> lists its
  items in insertion order.
\<close>

datatype pyval =
    PNone
  | PBool bool
  | PInt int
  | PStr string
  | PList "pyval list"
  | PTuple "pyval list"
  | PDict "(pyval \<times> pyval) list"
  | PBytes string

text \<open>
  The exceptions the modelled code can raise: the two classes of \<^verbatim>\<open>StorageDict.py\<close>, the
  built-in ones, \<^verbatim>\<open>sqlite3.OperationalError\<close>, \<^verbatim>\<open>json.JSONDecodeError\<close> and
  \<^verbatim>\<open>queue.Full\<close>.
\<close>

datatype error =
    WBStorageException
  | WBStorageReadOnlyException
  | KeyError
  | NameError
  | TypeError
  | AttributeError
  | OperationalError
  | JSONDecodeError
  | QueueFull

section \<open>The entry codec: \<^verbatim>\<open>json.dumps\<close> and \<^verbatim>\<open>json.loads\<close>\<close>

subsection \<open>Serialisation\<close>

definition digit_char :: "nat \<Rightarrow> char" where
  "digit_char d = char_of (48 + d)"

function show_nat :: "nat \<Rightarrow> string" where
  "show_nat n = (if n < 10 then [digit_char n] else show_nat (n div 10) @ [digit_char (n mod 10)])"
  by pat_completeness auto
termination
  by (relation "measure id") auto

declare show_nat.simps [simp del]

text \<open>\<^verbatim>\<open>int.__repr__\<close>: decimal digits, a leading minus sign for negative numbers.\<close>

definition str_int :: "int \<Rightarrow> string" where
  "str_int i = (if i < 0 then CHR ''-'' # show_nat (nat (- i)) else show_nat (nat i))"

definition hex_char :: "nat \<Rightarrow> char" where
  "hex_char d = (if d < 10 then char_of (48 + d) else char_of (87 + d))"

text \<open>
  One character under \<^verbatim>\<open>encode_basestring_ascii\<close>: the quote, the backslash and the five
  short escapes, printable ASCII unchanged, everything else as \<^verbatim>\<open>\u00xx\<close>.
\<close>

definition escape_char :: "char \<Rightarrow> string" where
  "escape_char c =
     (if c = CHR 0x22 then [CHR 0x5C, CHR 0x22]
      else if c = CHR 0x5C then [CHR 0x5C, CHR 0x5C]
      else if c = CHR 0x0A then [CHR 0x5C, CHR ''n'']
      else if c = CHR 0x0D then [CHR 0x5C, CHR ''r'']
      else if c = CHR 0x09 then [CHR 0x5C, CHR ''t'']
      else if c = CHR 0x08 then [CHR 0x5C, CHR ''b'']
      else if c = CHR 0x0C then [CHR 0x5C, CHR ''f'']
      else if 32 \<le> (of_char c :: nat) \<and> (of_char c :: nat) \<le> 126 then [c]
      else [CHR 0x5C, CHR ''u'', CHR ''0'', CHR ''0'',
            hex_char ((of_char c :: nat) div 16), hex_char ((of_char c :: nat) mod 16)])"

definition encode_basestring_ascii :: "string \<Rightarrow> string" where
  "encode_basestring_ascii s = CHR 0x22 # concat (map escape_char s) @ [CHR 0x22]"

text \<open>\<^verbatim>\<open>', '.join(parts)\<close>.\<close>

fun join_comma :: "string list \<Rightarrow> string" where
  "join_comma [] = []"
| "join_comma [x] = x"
| "join_comma (x # y # ys) = x @ '', '' @ join_comma (y # ys)"

text \<open>
  The key of a dict item: a string is kept, booleans, \<^verbatim>\<open>None\<close> and integers are coerced to
  their JSON spelling, any other key raises \<^verbatim>\<open>TypeError\<close> (\<^verbatim>\<open>skipkeys\<close> is false).
\<close>

fun dumps_key :: "pyval \<Rightarrow> error + string" where
  "dumps_key (PStr s) = Inr s"
| "dumps_key (PBool b) = Inr (if b then ''true'' else ''false'')"
| "dumps_key PNone = Inr ''null''"
| "dumps_key (PInt i) = Inr (str_int i)"
| "dumps_key _ = Inl TypeError"

text \<open>
  \<^verbatim>\<open>json.dumps\<close> with its default arguments. Lists and tuples both become JSON arrays; the
  first item that cannot be serialised raises.
\<close>

fun json_dumps :: "pyval \<Rightarrow> error + string"
  and dumps_list :: "pyval list \<Rightarrow> error + string list"
  and dumps_items :: "(pyval \<times> pyval) list \<Rightarrow> error + string list" where
  "json_dumps PNone = Inr ''null''"
| "json_dumps (PBool b) = Inr (if b then ''true'' else ''false'')"
| "json_dumps (PInt i) = Inr (str_int i)"
| "json_dumps (PStr s) = Inr (encode_basestring_ascii s)"
| "json_dumps (PList xs) =
     (case dumps_list xs of Inl e \<Rightarrow> Inl e
      | Inr ts \<Rightarrow> Inr (''['' @ join_comma ts @ '']''))"
| "json_dumps (PTuple xs) =
     (case dumps_list xs of Inl e \<Rightarrow> Inl e
      | Inr ts \<Rightarrow> Inr (''['' @ join_comma ts @ '']''))"
| "json_dumps (PDict kvs) =
     (case dumps_items kvs of Inl e \<Rightarrow> Inl e
      | Inr ts \<Rightarrow> Inr (''{'' @ join_comma ts @ ''}''))"
| "json_dumps (PBytes b) = Inl TypeError"
| "dumps_list [] = Inr []"
| "dumps_list (x # xs) =
     (case json_dumps x of Inl e \<Rightarrow> Inl e
      | Inr t \<Rightarrow> (case dumps_list xs of Inl e \<Rightarrow> Inl e | Inr ts \<Rightarrow> Inr (t # ts)))"
| "dumps_items [] = Inr []"
| "dumps_items (kv # kvs) =
     (case dumps_key (fst kv) of Inl e \<Rightarrow> Inl e
      | Inr k \<Rightarrow>
        (case json_dumps (snd kv) of Inl e \<Rightarrow> Inl e
         | Inr t \<Rightarrow>
           (case dumps_items kvs of Inl e \<Rightarrow> Inl e
            | Inr ts \<Rightarrow> Inr ((encode_basestring_ascii k @ '': '' @ t) # ts))))"

subsection \<open>Parsing\<close>

definition is_ws :: "char \<Rightarrow> bool" where
  "is_ws c \<longleftrightarrow> c = CHR '' '' \<or> c = CHR 0x09 \<or> c = CHR 0x0A \<or> c = CHR 0x0D"

definition skip_ws :: "string \<Rightarrow> string" where
  "skip_ws s = dropWhile is_ws s"

definition is_digit :: "char \<Rightarrow> bool" where
  "is_digit c \<longleftrightarrow> 48 \<le> (of_char c :: nat) \<and> (of_char c :: nat) \<le> 57"

definition digits_val :: "string \<Rightarrow> nat" where
  "digits_val ds = foldl (\<lambda>n c. 10 * n + ((of_char c :: nat) - 48)) 0 ds"

definition hex_val :: "char \<Rightarrow> nat option" where
  "hex_val c =
     (let n = (of_char c :: nat) in
      if 48 \<le> n \<and> n \<le> 57 then Some (n - 48)
      else if 97 \<le> n \<and> n \<le> 102 then Some (n - 87)
      else if 65 \<le> n \<and> n \<le> 70 then Some (n - 55)
      else None)"

text \<open>The character a short escape stands for (the \<^verbatim>\<open>BACKSLASH\<close> table of the decoder).\<close>

definition unescape_char :: "char \<Rightarrow> char option" where
  "unescape_char e =
     (if e = CHR 0x22 then Some (CHR 0x22)
      else if e = CHR 0x5C then Some (CHR 0x5C)
      else if e = CHR ''/'' then Some (CHR ''/'')
      else if e = CHR ''b'' then Some (CHR 0x08)
      else if e = CHR ''f'' then Some (CHR 0x0C)
      else if e = CHR ''n'' then Some (CHR 0x0A)
      else if e = CHR ''r'' then Some (CHR 0x0D)
      else if e = CHR ''t'' then Some (CHR 0x09)
      else None)"

text \<open>
  \<^verbatim>\<open>\uXXXX\<close>: four hexadecimal digits. A code point above 255 has no \<open>char\<close> and is
  refused here.
\<close>

definition decode_uXXXX :: "char \<Rightarrow> char \<Rightarrow> char \<Rightarrow> char \<Rightarrow> char option" where
  "decode_uXXXX a b c d =
     (case (hex_val a, hex_val b, hex_val c, hex_val d) of
        (Some x, Some y, Some z, Some w) \<Rightarrow>
          (let n = ((x * 16 + y) * 16 + z) * 16 + w in
           if n < 256 then Some (char_of n) else None)
      | _ \<Rightarrow> None)"

text \<open>
  \<^verbatim>\<open>scanstring\<close> in strict mode, started after the opening quote: the decoded string and
  the text after the closing quote. A raw control character and an unknown escape are
  errors.
\<close>

fun scanstring :: "string \<Rightarrow> (string \<times> string) option" where
  "scanstring [] = None"
| "scanstring (c # r) =
     (if c = CHR 0x22 then Some ([], r)
      else if c = CHR 0x5C then
        (case r of
           [] \<Rightarrow> None
         | e # r1 \<Rightarrow>
             if e = CHR ''u'' then
               (case r1 of
                  h1 # h2 # h3 # h4 # r2 \<Rightarrow>
                    (case decode_uXXXX h1 h2 h3 h4 of
                       None \<Rightarrow> None
                     | Some ch \<Rightarrow>
                         (case scanstring r2 of
                            None \<Rightarrow> None
                          | Some (s, r3) \<Rightarrow> Some (ch # s, r3)))
                | _ \<Rightarrow> None)
             else
               (case unescape_char e of
                  None \<Rightarrow> None
                | Some ch \<Rightarrow>
                    (case scanstring r1 of
                       None \<Rightarrow> None
                     | Some (s, r3) \<Rightarrow> Some (ch # s, r3))))
      else if (of_char c :: nat) < 32 then None
      else
        (case scanstring r of
           None \<Rightarrow> None
         | Some (s, r3) \<Rightarrow> Some (c # s, r3)))"

text \<open>
  The integer part of \<^verbatim>\<open>NUMBER_RE\<close>: a single zero, or a non-zero digit and the digits
  after it.
\<close>

definition parse_int_part :: "string \<Rightarrow> (nat \<times> string) option" where
  "parse_int_part s =
     (case s of
        [] \<Rightarrow> None
      | c # r \<Rightarrow>
          if c = CHR ''0'' then Some (0, r)
          else if is_digit c then Some (digits_val (takeWhile is_digit s), dropWhile is_digit s)
          else None)"

text \<open>Whether a fraction or an exponent follows, which makes the number a float.\<close>

definition is_float_tail :: "string \<Rightarrow> bool" where
  "is_float_tail r =
     (case r of
        [] \<Rightarrow> False
      | c # r1 \<Rightarrow>
          if c = CHR ''.'' then (case r1 of [] \<Rightarrow> False | d # _ \<Rightarrow> is_digit d)
          else if c = CHR ''e'' \<or> c = CHR ''E'' then
            (case r1 of
               [] \<Rightarrow> False
             | d # r2 \<Rightarrow>
                 if d = CHR ''+'' \<or> d = CHR ''-'' then (case r2 of [] \<Rightarrow> False | d2 # _ \<Rightarrow> is_digit d2)
                 else is_digit d)
          else False)"

text \<open>
  A number. Float literals (also \<^verbatim>\<open>NaN\<close> and \<^verbatim>\<open>Infinity\<close>) are outside the model and
  are refused.
\<close>

definition parse_number :: "string \<Rightarrow> (pyval \<times> string) option" where
  "parse_number s =
     (case s of
        [] \<Rightarrow> None
      | c # r \<Rightarrow>
          (case parse_int_part (if c = CHR ''-'' then r else s) of
             None \<Rightarrow> None
           | Some (n, r1) \<Rightarrow>
               if is_float_tail r1 then None
               else Some (PInt (if c = CHR ''-'' then - int n else int n), r1)))"

text \<open>
  \<^verbatim>\<open>dict(pairs)\<close>: a repeated key keeps its first position and takes the last value.
\<close>

fun dict_set :: "(pyval \<times> pyval) list \<Rightarrow> pyval \<Rightarrow> pyval \<Rightarrow> (pyval \<times> pyval) list" where
  "dict_set [] k v = [(k, v)]"
| "dict_set (kv # kvs) k v =
     (if fst kv = k then (fst kv, v) # kvs else kv # dict_set kvs k v)"

definition dict_of_pairs :: "(string \<times> pyval) list \<Rightarrow> (pyval \<times> pyval) list" where
  "dict_of_pairs ps = foldl (\<lambda>d kv. dict_set d (PStr (fst kv)) (snd kv)) [] ps"

text \<open>
  The scanner. The first argument bounds the number of nested calls; \<open>json_loads\<close> starts
  it above the length of the text, and every call consumes a character.
  \<open>parse_array\<close> starts at the first element of a non-empty array, \<open>parse_object\<close>
  after the opening quote of a key.
\<close>

fun parse_value :: "nat \<Rightarrow> string \<Rightarrow> (pyval \<times> string) option"
  and parse_array :: "nat \<Rightarrow> string \<Rightarrow> (pyval list \<times> string) option"
  and parse_object :: "nat \<Rightarrow> string \<Rightarrow> ((string \<times> pyval) list \<times> string) option" where
  "parse_value 0 s = None"
| "parse_value (Suc n) s =
     (case s of
        [] \<Rightarrow> None
      | c # r \<Rightarrow>
          if c = CHR 0x22 then
            (case scanstring r of None \<Rightarrow> None | Some (str, r1) \<Rightarrow> Some (PStr str, r1))
          else if c = CHR ''{'' then
            (case skip_ws r of
               [] \<Rightarrow> None
             | c1 # r1 \<Rightarrow>
                 if c1 = CHR ''}'' then Some (PDict [], r1)
                 else if c1 = CHR 0x22 then
                   (case parse_object n r1 of
                      None \<Rightarrow> None
                    | Some (ps, r2) \<Rightarrow> Some (PDict (dict_of_pairs ps), r2))
                 else None)
          else if c = CHR ''['' then
            (case skip_ws r of
               [] \<Rightarrow> None
             | c1 # r1 \<Rightarrow>
                 if c1 = CHR '']'' then Some (PList [], r1)
                 else
                   (case parse_array n (c1 # r1) of
                      None \<Rightarrow> None
                    | Some (vs, r2) \<Rightarrow> Some (PList vs, r2)))
          else if take 4 s = ''null'' then Some (PNone, drop 4 s)
          else if take 4 s = ''true'' then Some (PBool True, drop 4 s)
          else if take 5 s = ''false'' then Some (PBool False, drop 5 s)
          else parse_number s)"
| "parse_array 0 s = None"
| "parse_array (Suc n) s =
     (case parse_value n s of
        None \<Rightarrow> None
      | Some (v, r) \<Rightarrow>
          (case skip_ws r of
             [] \<Rightarrow> None
           | c # r1 \<Rightarrow>
               if c = CHR '']'' then Some ([v], r1)
               else if c = CHR '','' then
                 (case parse_array n (skip_ws r1) of
                    None \<Rightarrow> None
                  | Some (vs, r2) \<Rightarrow> Some (v # vs, r2))
               else None))"
| "parse_object 0 s = None"
| "parse_object (Suc n) s =
     (case scanstring s of
        None \<Rightarrow> None
      | Some (k, r) \<Rightarrow>
          (case skip_ws r of
             [] \<Rightarrow> None
           | c # r1 \<Rightarrow>
               if c = CHR '':'' then
                 (case parse_value n (skip_ws r1) of
                    None \<Rightarrow> None
                  | Some (v, r2) \<Rightarrow>
                      (case skip_ws r2 of
                         [] \<Rightarrow> None
                       | c2 # r3 \<Rightarrow>
                           if c2 = CHR ''}'' then Some ([(k, v)], r3)
                           else if c2 = CHR '','' then
                             (case skip_ws r3 of
                                [] \<Rightarrow> None
                              | c3 # r4 \<Rightarrow>
                                  if c3 = CHR 0x22 then
                                    (case parse_object n r4 of
                                       None \<Rightarrow> None
                                     | Some (ps, r5) \<Rightarrow> Some ((k, v) # ps, r5))
                                  else None)
                           else None))
               else None))"

text \<open>
  \<^verbatim>\<open>json.loads\<close>: leading whitespace, one value, trailing whitespace, and nothing else.
\<close>

definition json_loads :: "string \<Rightarrow> error + pyval" where
  "json_loads s =
     (case parse_value (Suc (length s)) (skip_ws s) of
        None \<Rightarrow> Inl JSONDecodeError
      | Some (v, r) \<Rightarrow> if skip_ws r = [] then Inr v else Inl JSONDecodeError)"

text \<open>
  \<^verbatim>\<open>obj.get(key)\<close>: the value under the key of a dict, \<^verbatim>\<open>None\<close> when the key is missing;
  any other object has no method \<^verbatim>\<open>get\<close>.
\<close>

fun py_get :: "pyval \<Rightarrow> pyval \<Rightarrow> error + pyval" where
  "py_get (PDict kvs) k = Inr (case map_of kvs k of None \<Rightarrow> PNone | Some v \<Rightarrow> v)"
| "py_get _ k = Inl AttributeError"

section \<open>The backing connection\<close>

text \<open>
  One row of \<^verbatim>\<open>tb_<storage>\<close>: the columns \<^verbatim>\<open>key\<close>, \<^verbatim>\<open>value\<close>, \<^verbatim>\<open>inserted\<close> and
  \<^verbatim>\<open>updated\<close>. The key type \<open>'k\<close> is the stored key after column affinity; it is never
  \<^verbatim>\<open>NULL\<close>.
\<close>

record 'k row =
  row_key :: 'k
  row_value :: string
  inserted :: int
  updated :: int

text \<open>
  The \<^verbatim>\<open>sqlite3\<close> connection of one store, in the module's legacy transaction control
  with \<^verbatim>\<open>isolation_level='EXCLUSIVE'\<close>: \<open>table\<close> is what the connection sees (rows in
  rowid order), \<open>committed\<close> is what the database file holds, and a data-modifying
  statement opens a transaction when none is open.
\<close>

record 'k connection =
  table :: "'k row list"
  committed :: "'k row list"
  in_transaction :: bool

text \<open>\<^verbatim>\<open>SELECT ... FROM tb WHERE key = ?\<close> followed by \<^verbatim>\<open>fetchone()\<close>.\<close>

definition sql_select_row :: "'k connection \<Rightarrow> 'k \<Rightarrow> 'k row option" where
  "sql_select_row c k = find (\<lambda>r. row_key r = k) (table c)"

text \<open>
  \<^verbatim>\<open>INSERT OR REPLACE INTO tb (key, value, inserted, updated) VALUES (:key, :value,
  COALESCE((SELECT inserted FROM tb WHERE key = :key), :now), :now)\<close>: the row of the key,
  if any, is deleted and the new row gets the next rowid.
\<close>

definition sql_insert_or_replace :: "'k connection \<Rightarrow> 'k \<Rightarrow> string \<Rightarrow> int \<Rightarrow> 'k connection" where
  "sql_insert_or_replace c k txt now =
     (let ins = (case sql_select_row c k of None \<Rightarrow> now | Some r \<Rightarrow> inserted r) in
      c\<lparr>table := filter (\<lambda>r. row_key r \<noteq> k) (table c)
                  @ [\<lparr>row_key = k, row_value = txt, inserted = ins, updated = now\<rparr>],
        in_transaction := True\<rparr>)"

text \<open>\<^verbatim>\<open>DELETE FROM tb WHERE key = ?\<close>: the cursor's \<^verbatim>\<open>rowcount\<close> and the connection.\<close>

definition sql_delete :: "'k connection \<Rightarrow> 'k \<Rightarrow> nat \<times> 'k connection" where
  "sql_delete c k =
     (length (filter (\<lambda>r. row_key r = k) (table c)),
      c\<lparr>table := filter (\<lambda>r. row_key r \<noteq> k) (table c), in_transaction := True\<rparr>)"

text \<open>
  \<^verbatim>\<open>TRUNCATE TABLE tb\<close>: SQLite has no such statement, preparing it fails with a syntax
  error and nothing is executed.
\<close>

definition sql_truncate :: "'k connection \<Rightarrow> error + 'k connection" where
  "sql_truncate c = Inl OperationalError"

definition conn_commit :: "'k connection \<Rightarrow> 'k connection" where
  "conn_commit c = c\<lparr>committed := table c, in_transaction := False\<rparr>"

definition conn_rollback :: "'k connection \<Rightarrow> 'k connection" where
  "conn_rollback c = c\<lparr>table := committed c, in_transaction := False\<rparr>"

section \<open>\<^verbatim>\<open>SharedStorage\<close>\<close>

record 'k storage =
  conn :: "'k connection"
  read_only :: bool
  active_context :: bool

text \<open>
  A method returns its result, or the exception it raises, together with the object after
  the call. The clock reading \<^verbatim>\<open>int(time.time())\<close> of a call is its argument \<open>now\<close>.
\<close>

definition check_read_only :: "'k storage \<Rightarrow> error + unit" where
  "check_read_only s = (if read_only s then Inl WBStorageReadOnlyException else Inr ())"

definition begin_tx :: "'k storage \<Rightarrow> 'k storage" where
  "begin_tx s =
     (if active_context s then s
      else if \<not> in_transaction (conn s) then s\<lparr>conn := (conn s)\<lparr>in_transaction := True\<rparr>\<rparr>
      else s)"

definition rollback :: "'k storage \<Rightarrow> 'k storage" where
  "rollback s =
     (if active_context s then s
      else if in_transaction (conn s) then s\<lparr>conn := conn_rollback (conn s)\<rparr>
      else s)"

definition commit :: "'k storage \<Rightarrow> 'k storage" where
  "commit s =
     (if active_context s then s
      else if in_transaction (conn s) then s\<lparr>conn := conn_commit (conn s)\<rparr>
      else s)"

definition count :: "'k storage \<Rightarrow> nat" where
  "count s = length (table (conn s))"


text \<open>\<^verbatim>\<open>json.loads(text).get('data')\<close>.\<close>

definition decode_entry :: "string \<Rightarrow> error + pyval" where
  "decode_entry txt =
     (case json_loads txt of Inl e \<Rightarrow> Inl e | Inr j \<Rightarrow> py_get j (PStr ''data''))"



text \<open>
  \<^verbatim>\<open>_set\<close>: the argument dict of \<^verbatim>\<open>execute\<close> is built first, so a value that cannot be
  serialised raises before any statement runs.
\<close>

definition set_internal :: "'k storage \<Rightarrow> int \<Rightarrow> 'k \<Rightarrow> pyval \<Rightarrow> (error + unit) \<times> 'k storage" where
  "set_internal s now k v =
     (case json_dumps (PDict [(PStr ''data'', v)]) of
        Inl e \<Rightarrow> (Inl e, s)
      | Inr txt \<Rightarrow> (Inr (), s\<lparr>conn := sql_insert_or_replace (conn s) k txt now\<rparr>))"

definition set_op :: "'k storage \<Rightarrow> int \<Rightarrow> 'k \<Rightarrow> pyval \<Rightarrow> (error + unit) \<times> 'k storage" where
  "set_op s now k v =
     (case check_read_only s of
        Inl e \<Rightarrow> (Inl e, s)
      | Inr u \<Rightarrow>
          (case set_internal s now k v of
             (Inl e, s1) \<Rightarrow> (Inl e, s1)
           | (Inr u1, s1) \<Rightarrow> (Inr (), commit s1)))"

text \<open>
  The name \<^verbatim>\<open>ignore_error\<close> that \<^verbatim>\<open>delete\<close> reads is bound nowhere (the parameter is
  \<^verbatim>\<open>ignore_key_error\<close>), so evaluating it raises \<^verbatim>\<open>NameError\<close>.
\<close>

definition ignore_error :: "error + bool" where
  "ignore_error = Inl NameError"

text \<open>
  \<^verbatim>\<open>delete\<close>: \<^verbatim>\<open>not cur.rowcount and not ignore_error\<close> evaluates its right operand only
  when no row was deleted.
\<close>

definition delete :: "'k storage \<Rightarrow> 'k \<Rightarrow> bool \<Rightarrow> (error + unit) \<times> 'k storage" where
  "delete s k ignore_key_error =
     (case check_read_only s of
        Inl e \<Rightarrow> (Inl e, s)
      | Inr u \<Rightarrow>
          (let (rowcount, c) = sql_delete (conn s) k;
               s1 = commit (s\<lparr>conn := c\<rparr>)
           in if rowcount = 0 then
                (case ignore_error of
                   Inl e \<Rightarrow> (Inl e, s1)
                 | Inr flag \<Rightarrow> if \<not> flag then (Inl KeyError, s1) else (Inr (), s1))
              else (Inr (), s1)))"

text \<open>\<^verbatim>\<open>get\<close>: the parameter \<^verbatim>\<open>default=None\<close> is \<open>PNone\<close> when the caller gives none.\<close>

definition get :: "'k storage \<Rightarrow> 'k \<Rightarrow> pyval \<Rightarrow> error + pyval" where
  "get s k dflt =
     (case sql_select_row (conn s) k of
        None \<Rightarrow> if dflt = PNone then Inl KeyError else Inr dflt
      | Some r \<Rightarrow> decode_entry (row_value r))"

fun update_loop :: "'k storage \<Rightarrow> int \<Rightarrow> ('k \<times> pyval) list \<Rightarrow> (error + unit) \<times> 'k storage" where
  "update_loop s now [] = (Inr (), s)"
| "update_loop s now (kv # kvs) =
     (case set_internal s now (fst kv) (snd kv) of
        (Inl e, s1) \<Rightarrow> (Inl e, s1)
      | (Inr u, s1) \<Rightarrow> update_loop s1 now kvs)"

text \<open>\<^verbatim>\<open>update\<close>: the items of \<^verbatim>\<open>dic\<close> in order; every \<^verbatim>\<open>_set\<close> reads the clock.\<close>

definition update :: "'k storage \<Rightarrow> int \<Rightarrow> ('k \<times> pyval) list \<Rightarrow> (error + unit) \<times> 'k storage" where
  "update s now dic =
     (case check_read_only s of
        Inl e \<Rightarrow> (Inl e, s)
      | Inr u \<Rightarrow>
          (case update_loop s now dic of
             (Inl e, s1) \<Rightarrow> (Inl e, s1)
           | (Inr u1, s1) \<Rightarrow> (Inr (), commit s1)))"

text \<open>The \<^verbatim>\<open>try\<close> block of \<^verbatim>\<open>pop\<close>.\<close>

definition pop_try :: "'k storage \<Rightarrow> 'k \<Rightarrow> (error + pyval) \<times> 'k storage" where
  "pop_try s k =
     (let s1 = begin_tx s in
      case get s1 k PNone of
        Inl e \<Rightarrow> (Inl e, s1)
      | Inr v \<Rightarrow>
          (case delete s1 k True of
             (Inl e, s2) \<Rightarrow> (Inl e, s2)
           | (Inr u, s2) \<Rightarrow> (Inr v, commit s2)))"

text \<open>\<^verbatim>\<open>pop\<close>: only a \<^verbatim>\<open>KeyError\<close> is caught; any other exception leaves the method.\<close>

definition pop :: "'k storage \<Rightarrow> 'k \<Rightarrow> pyval \<Rightarrow> (error + pyval) \<times> 'k storage" where
  "pop s k dflt =
     (case check_read_only s of
        Inl e \<Rightarrow> (Inl e, s)
      | Inr u \<Rightarrow>
          (case pop_try s k of
             (Inl e, s1) \<Rightarrow>
               if e = KeyError then
                 (let s2 = rollback s1 in
                  if dflt = PNone then (Inl e, s2) else (Inr dflt, s2))
               else (Inl e, s1)
           | (Inr v, s1) \<Rightarrow> (Inr v, s1)))"

definition age :: "'k storage \<Rightarrow> int \<Rightarrow> 'k \<Rightarrow> error + int \<times> int" where
  "age s now k =
     (case sql_select_row (conn s) k of
        None \<Rightarrow> Inl KeyError
      | Some r \<Rightarrow> Inr (now - inserted r, now - updated r))"

definition clear :: "'k storage \<Rightarrow> (error + unit) \<times> 'k storage" where
  "clear s =
     (case check_read_only s of
        Inl e \<Rightarrow> (Inl e, s)
      | Inr u \<Rightarrow>
          (case sql_truncate (conn s) of
             Inl e \<Rightarrow> (Inl e, s)
           | Inr c \<Rightarrow> (Inr (), s\<lparr>conn := c\<rparr>)))"

text \<open>
  \<^verbatim>\<open>__init__\<close> with \<^verbatim>\<open>_initialize\<close>, over a database whose namespace table is absent
  (\<open>None\<close>) or holds the given rows: a read-only open of an absent namespace fails, a
  writable open creates the table and, when \<open>expires\<close> is positive, sweeps the rows
  with \<^verbatim>\<open>updated + expires < now\<close>; the transaction is committed.
\<close>

definition init_storage :: "'k row list option \<Rightarrow> bool \<Rightarrow> int \<Rightarrow> int \<Rightarrow> error + 'k storage" where
  "init_storage db ro expires now =
     (case db of
        None \<Rightarrow>
          if ro then Inl WBStorageException
          else Inr \<lparr>conn = \<lparr>table = [], committed = [], in_transaction = False\<rparr>,
                    read_only = ro, active_context = False\<rparr>
      | Some rows \<Rightarrow>
          (let kept = (if \<not> ro \<and> expires > 0
                       then filter (\<lambda>r. \<not> updated r + expires < now) rows else rows)
           in Inr \<lparr>conn = \<lparr>table = kept, committed = kept, in_transaction = False\<rparr>,
                    read_only = ro, active_context = False\<rparr>))"

text \<open>The store over a fresh namespace, and a namespace that holds one entry.\<close>

definition fresh_store :: "string storage" where
  "fresh_store =
     \<lparr>conn = \<lparr>table = [], committed = [], in_transaction = False\<rparr>,
      read_only = False, active_context = False\<rparr>"

definition one_entry :: "string row list" where
  \<open>one_entry = [\<lparr>row_key = ''a'', row_value = ''{"data": 1}'', inserted = 5, updated = 5\<rparr>]\<close>

definition one_entry_store :: "bool \<Rightarrow> string storage" where
  "one_entry_store ro =
     \<lparr>conn = \<lparr>table = one_entry, committed = one_entry, in_transaction = False\<rparr>,
      read_only = ro, active_context = False\<rparr>"

section \<open>Notions used by the properties\<close>





text \<open>The text after a value inside a document: the end, a comma or a closing bracket.\<close>

definition value_end :: "string \<Rightarrow> bool" where
  "value_end rest \<longleftrightarrow>
     (case rest of [] \<Rightarrow> True | c # _ \<Rightarrow> c = CHR '','' \<or> c = CHR '']'' \<or> c = CHR ''}'')"

text \<open>
  A row whose \<open>value\<close> column is the text \<^verbatim>\<open>_set\<close> writes for some value, and a store
  all of whose rows, seen or committed, are such rows. Every mutator keeps a store in this
  class (\<open>written_by_set_fresh\<close> and the lemmas after it).
\<close>

definition stored_by_set :: "'k row \<Rightarrow> bool" where
  "stored_by_set r \<longleftrightarrow> (\<exists>v. json_dumps (PDict [(PStr ''data'', v)]) = Inr (row_value r))"

definition written_by_set :: "'k storage \<Rightarrow> bool" where
  "written_by_set s \<longleftrightarrow>
     (\<forall>r \<in> set (table (conn s)) \<union> set (committed (conn s)). stored_by_set r)"

section \<open>Properties of the entry codec\<close>

subsection \<open>Integers\<close>
















subsection \<open>Strings\<close>





lemma escape_char_nonempty: "escape_char c \<noteq> []"
  by (simp add: escape_char_def)



subsection \<open>Documents\<close>


lemma pv_null: "parse_value (Suc n) (''null'' @ rest) = Some (PNone, rest)"
  by simp

lemma pv_true: "parse_value (Suc n) (''true'' @ rest) = Some (PBool True, rest)"
  by simp

lemma pv_false: "parse_value (Suc n) (''false'' @ rest) = Some (PBool False, rest)"
  by simp

















lemma value_end_simps [simp]:
  "value_end []" "value_end (CHR '','' # r)" "value_end (CHR '']'' # r)" "value_end (CHR ''}'' # r)"
  by (simp_all add: value_end_def)








lemma dict_of_pairs_single [simp]: "dict_of_pairs [(k, v)] = [(PStr k, v)]"
  by (simp add: dict_of_pairs_def)







section \<open>Properties of the transactional store\<close>

lemma find_filter_other [simp]:
  "find (\<lambda>r. row_key r = k) (filter (\<lambda>r. row_key r \<noteq> k) rs) = None"
  by (induction rs) auto

lemma find_append_miss: "find P xs = None \<Longrightarrow> find P (xs @ ys) = find P ys"
  by (induction xs) (auto split: if_splits)

lemma select_after_upsert:
  "sql_select_row (sql_insert_or_replace c k txt now) k =
     Some \<lparr>row_key = k, row_value = txt,
           inserted = (case sql_select_row c k of None \<Rightarrow> now | Some r \<Rightarrow> inserted r),
           updated = now\<rparr>"
  by (simp add: sql_select_row_def sql_insert_or_replace_def Let_def find_append_miss)

lemma select_commit [simp]: "sql_select_row (conn (commit s)) k = sql_select_row (conn s) k"
  by (simp add: commit_def conn_commit_def sql_select_row_def)

lemma init_one_entry:
  "init_storage (Some one_entry) ro 0 now = Inr (one_entry_store ro)"
  by (simp add: init_storage_def one_entry_store_def)

text \<open>
  C2. When \<open>set\<close> succeeds on a key that already has an entry, the entry keeps the
  \<open>inserted\<close> timestamp of the old row, its \<open>updated\<close> timestamp is the clock reading of
  the call, and \<open>age\<close> at any later reading returns the two differences.
\<close>

theorem set_keeps_inserted_refreshes_updated:
  assumes "sql_select_row (conn s) k = Some r"
      and "set_op s now k v = (Inr (), s1)"
  shows "\<exists>r1. sql_select_row (conn s1) k = Some r1
            \<and> inserted r1 = inserted r \<and> updated r1 = now
            \<and> age s1 later k = Inr (later - inserted r, later - now)"
  using assms
  by (auto simp: set_op_def set_internal_def check_read_only_def age_def select_after_upsert
           split: if_splits sum.splits)

theorem set_keeps_inserted_refreshes_updated_witness:
  "sql_select_row (conn (one_entry_store False)) ''a''
     = Some \<lparr>row_key = ''a'', row_value = ''{\"data\": 1}'', inserted = 5, updated = 5\<rparr>
   \<and> fst (set_op (one_entry_store False) 9 ''a'' (PInt 2)) = Inr ()
   \<and> age (snd (set_op (one_entry_store False) 9 ''a'' (PInt 2))) 20 ''a'' = Inr (15, 11)"
proof -
  have h1: "sql_select_row (conn (one_entry_store False)) ''a''
     = Some \<lparr>row_key = ''a'', row_value = ''{\"data\": 1}'', inserted = 5, updated = 5\<rparr>"
    by (simp add: one_entry_store_def one_entry_def sql_select_row_def)
  have h2: "fst (set_op (one_entry_store False) 9 ''a'' (PInt 2)) = Inr ()"
    by (simp add: set_op_def set_internal_def check_read_only_def one_entry_store_def
          split: sum.splits)
  then have h3: "set_op (one_entry_store False) 9 ''a'' (PInt 2)
                   = (Inr (), snd (set_op (one_entry_store False) 9 ''a'' (PInt 2)))"
    by (metis prod.collapse)
  from set_keeps_inserted_refreshes_updated [OF h1 h3, of 20] h1 h2
  show ?thesis by auto
qed

text \<open>
  C3. On a store whose \<open>read_only\<close> flag is set, \<open>set\<close>, \<open>delete\<close>, \<open>update\<close>, \<open>pop\<close>
  and \<open>clear\<close> raise \<^verbatim>\<open>WBStorageReadOnlyException\<close> and return the store as it was.
\<close>

theorem read_only_rejects_mutators:
  assumes "read_only s"
  shows "set_op s now k v = (Inl WBStorageReadOnlyException, s)
       \<and> delete s k flag = (Inl WBStorageReadOnlyException, s)
       \<and> update s now dic = (Inl WBStorageReadOnlyException, s)
       \<and> pop s k dflt = (Inl WBStorageReadOnlyException, s)
       \<and> clear s = (Inl WBStorageReadOnlyException, s)"
  using assms
  by (simp add: set_op_def delete_def update_def pop_def clear_def check_read_only_def)

theorem read_only_rejects_mutators_witness:
  "init_storage (Some one_entry) True 0 9 = Inr (one_entry_store True)
   \<and> read_only (one_entry_store True)
   \<and> set_op (one_entry_store True) 9 ''a'' (PInt 2)
       = (Inl WBStorageReadOnlyException, one_entry_store True)
   \<and> delete (one_entry_store True) ''a'' False
       = (Inl WBStorageReadOnlyException, one_entry_store True)
   \<and> update (one_entry_store True) 9 [(''b'', PInt 3)]
       = (Inl WBStorageReadOnlyException, one_entry_store True)
   \<and> pop (one_entry_store True) ''a'' PNone
       = (Inl WBStorageReadOnlyException, one_entry_store True)
   \<and> clear (one_entry_store True) = (Inl WBStorageReadOnlyException, one_entry_store True)"
proof -
  have ro: "read_only (one_entry_store True)"
    by (simp add: one_entry_store_def)
  show ?thesis
    using ro init_one_entry [of True 9]
      read_only_rejects_mutators [OF ro, of 9 "''a''" "PInt 2" False "[(''b'', PInt 3)]" PNone]
    by simp
qed

text \<open>
  C4. Deleting a key that has no entry raises \<^verbatim>\<open>NameError\<close>, whatever the flag: on the
  fresh store, with \<^verbatim>\<open>ignore_key_error=True\<close> and with \<^verbatim>\<open>ignore_key_error=False\<close>.
\<close>

theorem delete_absent_raises_NameError:
  "fst (delete fresh_store ''a'' True) = Inl NameError
   \<and> fst (delete fresh_store ''a'' False) = Inl NameError"
  by (simp add: delete_def check_read_only_def fresh_store_def sql_delete_def ignore_error_def
        Let_def)

text \<open>
  C6. On a writable store that holds one entry, \<open>clear\<close> raises
  \<^verbatim>\<open>sqlite3.OperationalError\<close> and the entry is still there.
\<close>

theorem clear_raises_OperationalError:
  "clear (one_entry_store False) = (Inl OperationalError, one_entry_store False)
   \<and> count (one_entry_store False) = 1"
  by (simp add: clear_def check_read_only_def sql_truncate_def one_entry_store_def count_def
        one_entry_def)










lemma find_None_filter: "find P xs = None \<Longrightarrow> filter P xs = []"
  by (induction xs) (auto split: if_splits)

lemma get_begin_tx [simp]: "get (begin_tx s) k d = get s k d"
  by (simp add: get_def begin_tx_def sql_select_row_def)

lemma read_only_begin_tx [simp]: "read_only (begin_tx s) = read_only s"
  by (simp add: begin_tx_def)






lemma delete_absent:
  assumes "\<not> read_only s" and "sql_select_row (conn s) k = None"
  shows "fst (delete s k flag) = Inl NameError"
  using assms find_None_filter [of "\<lambda>r. row_key r = k" "table (conn s)"]
  by (simp add: delete_def check_read_only_def sql_delete_def sql_select_row_def
        ignore_error_def)

lemma select_begin_tx [simp]: "sql_select_row (conn (begin_tx s)) k = sql_select_row (conn s) k"
  by (simp add: begin_tx_def sql_select_row_def)









lemma written_by_set_fresh: "written_by_set fresh_store"
  by (simp add: written_by_set_def fresh_store_def)

lemma written_commit: "written_by_set s \<Longrightarrow> written_by_set (commit s)"
  by (auto simp: written_by_set_def commit_def conn_commit_def)

lemma written_rollback: "written_by_set s \<Longrightarrow> written_by_set (rollback s)"
  by (auto simp: written_by_set_def rollback_def conn_rollback_def)

lemma written_begin_tx: "written_by_set s \<Longrightarrow> written_by_set (begin_tx s)"
  by (auto simp: written_by_set_def begin_tx_def)

lemma written_set_internal:
  assumes "written_by_set s"
  shows "written_by_set (snd (set_internal s now k v))"
proof (cases "json_dumps (PDict [(PStr ''data'', v)])")
  case (Inl e)
  then show ?thesis using assms by (simp add: set_internal_def)
next
  case (Inr t)
  have "stored_by_set \<lparr>row_key = k, row_value = t,
          inserted = (case sql_select_row (conn s) k of None \<Rightarrow> now | Some r \<Rightarrow> inserted r),
          updated = now\<rparr>"
    unfolding stored_by_set_def using Inr by (intro exI [of _ v]) simp
  then show ?thesis
    using assms Inr
    by (auto simp del: json_dumps.simps
             simp: set_internal_def written_by_set_def sql_insert_or_replace_def Let_def)
qed

lemma written_set_op:
  "written_by_set s \<Longrightarrow> written_by_set (snd (set_op s now k v))"
  using written_set_internal [of s now k v]
  by (auto simp: set_op_def written_commit split: sum.splits prod.splits)

lemma written_delete:
  "written_by_set s \<Longrightarrow> written_by_set (snd (delete s k flag))"
proof -
  assume a: "written_by_set s"
  then have "written_by_set (s\<lparr>conn := snd (sql_delete (conn s) k)\<rparr>)"
    by (auto simp: written_by_set_def sql_delete_def)
  then have "written_by_set (commit (s\<lparr>conn := snd (sql_delete (conn s) k)\<rparr>))"
    by (rule written_commit)
  then show ?thesis
    using a by (auto simp: delete_def Let_def split: sum.splits prod.splits)
qed

lemma written_update_loop:
  "written_by_set s \<Longrightarrow> written_by_set (snd (update_loop s now dic))"
proof (induction dic arbitrary: s)
  case Nil
  then show ?case by simp
next
  case (Cons kv dic)
  have w: "written_by_set (snd (set_internal s now (fst kv) (snd kv)))"
    using Cons.prems by (rule written_set_internal)
  show ?case
  proof (cases "set_internal s now (fst kv) (snd kv)")
    case (Pair res s1)
    with w have w1: "written_by_set s1" by simp
    show ?thesis
      using Pair w1 Cons.IH [OF w1] by (cases res) simp_all
  qed
qed

lemma written_update:
  "written_by_set s \<Longrightarrow> written_by_set (snd (update s now dic))"
  using written_update_loop [of s now dic]
  by (auto simp: update_def written_commit split: sum.splits prod.splits)

lemma written_clear: "written_by_set s \<Longrightarrow> written_by_set (snd (clear s))"
  by (simp add: clear_def sql_truncate_def split: sum.splits)

lemma written_pop:
  assumes "written_by_set s"
  shows "written_by_set (snd (pop s k d))"
proof -
  have b: "written_by_set (begin_tx s)" using assms by (rule written_begin_tx)
  have t: "written_by_set (snd (pop_try s k))"
    using b written_delete [OF b, of k True]
    by (auto simp: pop_try_def Let_def written_commit split: sum.splits prod.splits)
  show ?thesis
    using assms t
    by (auto simp: pop_def Let_def written_rollback split: sum.splits prod.splits)
qed

end
